theory Spec2Isabelle
  imports Main
begin

section \<open>The watchdog of src/watchdog.py\<close>

text \<open>
  The development embeds the class \<open>Watchdog\<close> and the module-level registry functions of
  \<^verbatim>\<open>src/watchdog.py\<close>. Python objects become records, the methods become functions that
  take the object and the outside world and return both updated, and the background thread
  that runs \<open>_monitor_loop\<close> becomes a step function: one step is what the thread does from
  the point where it is scheduled up to its next \<open>time.sleep\<close> (or up to its exit).
  Calls of other threads (\<open>start\<close>, \<open>stop\<close>, \<open>heartbeat\<close>) are interleaved with those
  steps as whole calls.
\<close>

subsection \<open>Values, exceptions, log records\<close>

text \<open>
  A \<open>datetime\<close> is the number of microseconds since a fixed origin (its resolution in
  Python), so that the difference of two of them is the \<open>timedelta\<close> in microseconds.
\<close>

type_synonym time = int

definition timedelta_seconds :: "int \<Rightarrow> int" where
  "timedelta_seconds s = s * 1000000"

text \<open>The values that occur in the dictionaries the code builds, and a dictionary as an
  association list in insertion order.\<close>

datatype pyval = PyNone | PyBool bool | PyInt int | PyStr string

type_synonym pydict = "(string \<times> pyval) list"

text \<open>The exceptions the code can meet, and what the \<open>logging\<close> calls emit: a level, the
  literal text of the message and, for an f-string, the value interpolated at its end.\<close>

datatype exn = NameError | OSError | RuntimeError | ValueError

datatype level = DEBUG | INFO | WARNING | ERROR | CRITICAL

datatype logrec = Msg level string | MsgInt level string int | MsgExn level string exn

subsection \<open>The environment of a call\<close>

text \<open>
  What lies outside the program and decides how a call goes:
  \<^item> \<open>names_bound\<close>: whether \<open>json\<close> and \<open>Path\<close> are bound in the module's globals. The
    only imports of them are at lines 252-253, under \<open>if __name__ == "__main__"\<close>, so they
    are bound exactly when the file is run as a script and unbound when the module is
    imported (as \<^verbatim>\<open>src/test_modules.py\<close> does);
  \<^item> \<open>spawn_ok\<close>: whether \<open>Thread.start()\<close> succeeds (it raises \<open>RuntimeError\<close> when the
    system refuses a new thread);
  \<^item> \<open>fs\<close>: how the file system answers the append of \<open>_save_restart_log\<close>;
  \<^item> \<open>isoformat\<close> and \<open>json_dumps\<close>: the library functions \<open>datetime.isoformat\<close> and
    \<open>json.dumps\<close>, taken as parameters.
\<close>

datatype fs_outcome = FsOk | MkdirFails | OpenFails | WriteFails nat

record env =
  names_bound :: bool
  spawn_ok :: bool
  fs :: fs_outcome
  isoformat :: "time \<Rightarrow> string"
  json_dumps :: "pydict \<Rightarrow> string"

text \<open>The world the calls write to: the records handed to the logger, and the contents of
  \<^verbatim>\<open>logs/watchdog_restarts.log\<close> (empty while the file does not exist).\<close>

record world =
  logger :: "logrec list"
  restart_file :: string

definition emit :: "logrec \<Rightarrow> world \<Rightarrow> world" where
  "emit m wd = wd\<lparr>logger := logger wd @ [m]\<rparr>"

subsection \<open>The object\<close>

text \<open>The configuration dictionary: each key may be absent.\<close>

record config =
  cfg_enabled :: "bool option"
  cfg_heartbeat_interval :: "int option"
  cfg_max_failures :: "int option"
  cfg_auto_restart :: "bool option"

definition empty_config :: config where
  "empty_config = \<lparr>cfg_enabled = None, cfg_heartbeat_interval = None,
     cfg_max_failures = None, cfg_auto_restart = None\<rparr>"

definition dict_get :: "'a option \<Rightarrow> 'a \<Rightarrow> 'a" where
  "dict_get v d = (case v of None \<Rightarrow> d | Some x \<Rightarrow> x)"

text \<open>
  A thread created by \<open>start\<close>: \<open>Unstarted\<close> when \<open>Thread.start()\<close> raised, \<open>Spawned\<close> once
  started and before it has run, \<open>Looping\<close> while it is inside the \<open>while\<close> of
  \<open>_monitor_loop\<close>, \<open>Finished\<close> once \<open>_monitor_loop\<close> has returned or raised.
\<close>

datatype tstate = Unstarted | Spawned | Looping | Finished

text \<open>
  The fields of a \<open>Watchdog\<close>. \<open>threads\<close> holds every \<open>Thread\<close> object \<open>start\<close> has created
  with this object's \<open>_monitor_loop\<close> as target, in creation order; \<open>thread\<close> (the source's
  \<open>self.thread\<close>) is the index of the latest one.
\<close>

record watchdog =
  enabled :: bool
  heartbeat_interval :: int
  max_failures :: int
  auto_restart :: bool
  failure_count :: int
  last_heartbeat :: "time option"
  is_running :: bool
  thread :: "nat option"
  threads :: "tstate list"

text \<open>\<open>Watchdog.__init__\<close> (lines 17-29); \<open>config or {}\<close> turns \<open>None\<close> into the empty dictionary.\<close>

definition Watchdog_init :: "config option \<Rightarrow> watchdog" where
  "Watchdog_init cfg =
     (let c = (case cfg of None \<Rightarrow> empty_config | Some c \<Rightarrow> c) in
      \<lparr>enabled = dict_get (cfg_enabled c) True,
       heartbeat_interval = dict_get (cfg_heartbeat_interval c) 30,
       max_failures = dict_get (cfg_max_failures c) 3,
       auto_restart = dict_get (cfg_auto_restart c) True,
       failure_count = 0,
       last_heartbeat = None,
       is_running = False,
       thread = None,
       threads = []\<rparr>)"

text \<open>\<open>Watchdog.start\<close> (lines 31-50). In the \<open>try\<close> only \<open>Thread.start()\<close> can raise.\<close>

definition start :: "env \<Rightarrow> watchdog \<Rightarrow> world \<Rightarrow> bool \<times> watchdog \<times> world" where
  "start e w wd =
     (if \<not> enabled w then
        (False, w, emit (Msg INFO ''Watchdog disabled in configuration'') wd)
      else if is_running w then
        (True, w, emit (Msg WARNING ''Watchdog already running'') wd)
      else
        (let tid = length (threads w);
             w1 = w\<lparr>is_running := True\<rparr>;
             w2 = w1\<lparr>thread := Some tid, threads := threads w1 @ [Unstarted]\<rparr>
         in if spawn_ok e then
              (True, w2\<lparr>threads := (threads w2)[tid := Spawned]\<rparr>,
               emit (Msg INFO ''Watchdog started successfully'') wd)
            else
              (False, w2\<lparr>is_running := False\<rparr>,
               emit (MsgExn ERROR ''Failed to start watchdog: '' RuntimeError) wd)))"

text \<open>
  \<open>Watchdog.stop\<close> (lines 52-65). \<open>join(timeout=5)\<close> waits and changes no field; what the
  loop's thread does meanwhile is a step of that thread. \<open>join\<close> is called on a started
  thread by another thread, so nothing in the \<open>try\<close> raises.
\<close>

definition stop :: "watchdog \<Rightarrow> world \<Rightarrow> bool \<times> watchdog \<times> world" where
  "stop w wd =
     (if \<not> is_running w then (True, w, wd)
      else (True, w\<lparr>is_running := False\<rparr>, emit (Msg INFO ''Watchdog stopped'') wd))"

text \<open>\<open>Watchdog.heartbeat\<close> (lines 67-76); \<open>now\<close> is what \<open>datetime.now()\<close> returns.\<close>

definition heartbeat :: "time \<Rightarrow> watchdog \<Rightarrow> world \<Rightarrow> bool \<times> watchdog \<times> world" where
  "heartbeat now w wd =
     (True, w\<lparr>last_heartbeat := Some now, failure_count := 0\<rparr>,
      emit (Msg DEBUG ''Heartbeat sent'') wd)"

text \<open>
  \<open>Watchdog._save_restart_log\<close> (lines 132-143). \<open>Path('logs')\<close> is the first statement of
  the \<open>try\<close>: with the names unbound it raises \<open>NameError\<close>, which the \<open>except\<close> logs.
  A write that fails may have put a prefix of the line into the file.
\<close>

definition save_restart_log :: "env \<Rightarrow> pydict \<Rightarrow> world \<Rightarrow> world" where
  "save_restart_log e log_data wd =
     (if \<not> names_bound e then
        emit (MsgExn ERROR ''Error saving restart log: '' NameError) wd
      else
        (let line = json_dumps e log_data @ [CHR 0x0A] in
         case fs e of
           MkdirFails \<Rightarrow> emit (MsgExn ERROR ''Error saving restart log: '' OSError) wd
         | OpenFails \<Rightarrow> emit (MsgExn ERROR ''Error saving restart log: '' OSError) wd
         | WriteFails n \<Rightarrow>
             emit (MsgExn ERROR ''Error saving restart log: '' OSError)
               (wd\<lparr>restart_file := restart_file wd @ take n line\<rparr>)
         | FsOk \<Rightarrow> wd\<lparr>restart_file := restart_file wd @ line\<rparr>))"

text \<open>
  \<open>Watchdog._trigger_restart\<close> (lines 105-130); \<open>now\<close> is its own \<open>datetime.now()\<close>.
  \<open>_save_restart_log\<close> swallows its exceptions, so nothing reaches the outer \<open>except\<close>.
\<close>

definition trigger_restart :: "env \<Rightarrow> time \<Rightarrow> watchdog \<Rightarrow> world \<Rightarrow> world" where
  "trigger_restart e now w wd =
     (let wd1 = emit (Msg CRITICAL ''Watchdog triggering system restart'') wd;
          restart_log =
            [(''timestamp'', PyStr (isoformat e now)),
             (''reason'', PyStr ''watchdog_max_failures''),
             (''failure_count'', PyInt (failure_count w)),
             (''last_heartbeat'',
                (case last_heartbeat w of None \<Rightarrow> PyNone | Some h \<Rightarrow> PyStr (isoformat e h)))];
          wd2 = save_restart_log e restart_log wd1
      in emit (Msg INFO ''Restart triggered successfully'') wd2)"

text \<open>\<open>Watchdog.get_status\<close> (lines 145-155).\<close>

definition get_status :: "env \<Rightarrow> watchdog \<Rightarrow> pydict" where
  "get_status e w =
     [(''enabled'', PyBool (enabled w)),
      (''running'', PyBool (is_running w)),
      (''failure_count'', PyInt (failure_count w)),
      (''last_heartbeat'',
         (case last_heartbeat w of None \<Rightarrow> PyNone | Some h \<Rightarrow> PyStr (isoformat e h))),
      (''max_failures'', PyInt (max_failures w)),
      (''auto_restart'', PyBool (auto_restart w)),
      (''heartbeat_interval'', PyInt (heartbeat_interval w))]"

subsection \<open>The monitoring loop\<close>

text \<open>
  How one pass through the body of the \<open>while\<close> (lines 83-103) ends: at the end of the
  \<open>time.sleep\<close> (\<open>Continue\<close>), at the \<open>break\<close> of line 97 (\<open>Break\<close>), or with an exception
  that leaves \<open>_monitor_loop\<close> (\<open>Crash\<close>).
\<close>

datatype loop_ctl = Continue | Break | Crash

text \<open>
  \<open>time.sleep\<close> raises \<open>ValueError\<close> on a negative length. Raised at line 99 it is caught
  at line 101 and logged; the \<open>time.sleep\<close> of line 103 then raises it again, outside any
  \<open>try\<close>, and the thread ends. An interval that is not negative is taken to lie in the
  range \<open>timedelta\<close> and \<open>time.sleep\<close> accept.
\<close>

definition sleep_interval :: "watchdog \<Rightarrow> world \<Rightarrow> loop_ctl \<times> watchdog \<times> world" where
  "sleep_interval w wd =
     (if 0 \<le> heartbeat_interval w then (Continue, w, wd)
      else (Crash, w, emit (MsgExn ERROR ''Error in watchdog loop: '' ValueError) wd))"

text \<open>
  The body of the \<open>while\<close>, entered with \<open>is_running\<close> true. \<open>now\<close> is the clock read at
  line 86 and \<open>now_r\<close> the one read inside \<open>_trigger_restart\<close>.
\<close>

definition monitor_loop_body ::
    "env \<Rightarrow> time \<Rightarrow> time \<Rightarrow> watchdog \<Rightarrow> world \<Rightarrow> loop_ctl \<times> watchdog \<times> world" where
  "monitor_loop_body e now now_r w wd =
     (case last_heartbeat w of
        None \<Rightarrow> sleep_interval w wd
      | Some h \<Rightarrow>
          (let time_since_heartbeat = now - h;
               max_allowed_time = timedelta_seconds (heartbeat_interval w * 2)
           in if time_since_heartbeat > max_allowed_time then
                (let w1 = w\<lparr>failure_count := failure_count w + 1\<rparr>;
                     wd1 = emit (MsgInt WARNING ''Heartbeat timeout. Failure count: ''
                                   (failure_count w1)) wd
                 in if failure_count w1 \<ge> max_failures w1 then
                      (let wd2 = emit (Msg ERROR
                                   ''Maximum failures reached. Triggering restart...'') wd1
                       in (Break, w1,
                             if auto_restart w1 then trigger_restart e now_r w1 wd2 else wd2))
                    else sleep_interval w1 wd1)
              else sleep_interval w wd))"

text \<open>One turn of the loop by thread \<open>tid\<close>: the test of the \<open>while\<close> (line 82), then the
  body. The thread is \<open>Finished\<close> when the test fails, at the \<open>break\<close> and at a crash.\<close>

definition loop_turn ::
    "env \<Rightarrow> nat \<Rightarrow> time \<Rightarrow> time \<Rightarrow> watchdog \<Rightarrow> world \<Rightarrow> watchdog \<times> world" where
  "loop_turn e tid now now_r w wd =
     (if \<not> is_running w then (w\<lparr>threads := (threads w)[tid := Finished]\<rparr>, wd)
      else
        (case monitor_loop_body e now now_r w wd of
           (Continue, w', wd') \<Rightarrow> (w'\<lparr>threads := (threads w')[tid := Looping]\<rparr>, wd')
         | (Break, w', wd') \<Rightarrow> (w'\<lparr>threads := (threads w')[tid := Finished]\<rparr>, wd')
         | (Crash, w', wd') \<Rightarrow> (w'\<lparr>threads := (threads w')[tid := Finished]\<rparr>, wd')))"

text \<open>
  \<open>Watchdog._monitor_loop\<close> (lines 78-103) as run by thread \<open>tid\<close>, one step at a time.
  The first step of a thread logs line 80 before its first turn. A thread that does not
  exist, was not started or has finished does nothing.
\<close>

definition monitor_loop_step ::
    "env \<Rightarrow> nat \<Rightarrow> time \<Rightarrow> time \<Rightarrow> watchdog \<Rightarrow> world \<Rightarrow> watchdog \<times> world" where
  "monitor_loop_step e tid now now_r w wd =
     (if tid < length (threads w) then
        (case threads w ! tid of
           Spawned \<Rightarrow>
             loop_turn e tid now now_r w
               (emit (Msg INFO ''Watchdog monitoring loop started'') wd)
         | Looping \<Rightarrow> loop_turn e tid now now_r w wd
         | Unstarted \<Rightarrow> (w, wd)
         | Finished \<Rightarrow> (w, wd))
      else (w, wd))"

text \<open>Whether some thread is still running the loop of \<open>w\<close>.\<close>

definition loop_alive :: "watchdog \<Rightarrow> bool" where
  "loop_alive w = (Spawned \<in> set (threads w) \<or> Looping \<in> set (threads w))"

text \<open>Executions of one object: calls of its methods and steps of its threads, in the
  order in which they happen.\<close>

datatype event =
    Start env
  | Stop
  | Heartbeat time
  | Step env nat time time

fun exec :: "event \<Rightarrow> watchdog \<times> world \<Rightarrow> watchdog \<times> world" where
  "exec (Start e) (w, wd) = snd (start e w wd)"
| "exec Stop (w, wd) = snd (stop w wd)"
| "exec (Heartbeat now) (w, wd) = snd (heartbeat now w wd)"
| "exec (Step e tid now now_r) (w, wd) = monitor_loop_step e tid now now_r w wd"

definition run :: "event list \<Rightarrow> watchdog \<times> world \<Rightarrow> watchdog \<times> world" where
  "run evs s = foldl (\<lambda>s ev. exec ev s) s evs"

subsection \<open>The registry\<close>

text \<open>
  The module's state: the \<open>Watchdog\<close> objects by address (\<open>next_addr\<close> is the first address
  not yet allocated; the cells from there on are never read) and the global
  \<open>_watchdog_instance\<close>, a reference or \<open>None\<close>.
\<close>

record module_state =
  heap :: "nat \<Rightarrow> watchdog"
  next_addr :: nat
  watchdog_instance :: "nat option"

definition initial_module :: module_state where
  "initial_module = \<lparr>heap = (\<lambda>_. Watchdog_init None), next_addr = 0, watchdog_instance = None\<rparr>"

text \<open>Lines 168-172 of \<open>start_watchdog\<close>: a new object is allocated, bound to the global and
  then started.\<close>

definition start_new ::
    "env \<Rightarrow> config option \<Rightarrow> module_state \<Rightarrow> world \<Rightarrow> nat option \<times> module_state \<times> world" where
  "start_new e cfg g wd =
     (let a = next_addr g;
          g1 = g\<lparr>heap := (heap g)(a := Watchdog_init cfg), next_addr := Suc a,
                 watchdog_instance := Some a\<rparr>
      in case start e (heap g1 a) wd of
           (ok, w', wd') \<Rightarrow>
             (if ok then Some a else None, g1\<lparr>heap := (heap g1)(a := w')\<rparr>, wd'))"

text \<open>\<open>start_watchdog\<close> (lines 160-175). An object is always true in the test of line 165.
  Neither the constructor nor \<open>start\<close> raises, so the \<open>except\<close> is never entered.\<close>

definition start_watchdog ::
    "env \<Rightarrow> config option \<Rightarrow> module_state \<Rightarrow> world \<Rightarrow> nat option \<times> module_state \<times> world" where
  "start_watchdog e cfg g wd =
     (case watchdog_instance g of
        None \<Rightarrow> start_new e cfg g wd
      | Some a \<Rightarrow>
          if is_running (heap g a) then (Some a, g, wd) else start_new e cfg g wd)"

text \<open>\<open>stop_watchdog\<close> (lines 177-187).\<close>

definition stop_watchdog :: "module_state \<Rightarrow> world \<Rightarrow> bool \<times> module_state \<times> world" where
  "stop_watchdog g wd =
     (case watchdog_instance g of
        None \<Rightarrow> (True, g, wd)
      | Some a \<Rightarrow>
          (case stop (heap g a) wd of
             (r, w', wd') \<Rightarrow> (r, g\<lparr>heap := (heap g)(a := w')\<rparr>, wd')))"

text \<open>\<open>get_watchdog_status\<close> (lines 189-204).\<close>

definition get_watchdog_status :: "env \<Rightarrow> module_state \<Rightarrow> pydict" where
  "get_watchdog_status e g =
     (case watchdog_instance g of
        Some a \<Rightarrow> get_status e (heap g a)
      | None \<Rightarrow>
          [(''enabled'', PyBool False),
           (''running'', PyBool False),
           (''failure_count'', PyInt 0),
           (''last_heartbeat'', PyNone),
           (''max_failures'', PyInt 3),
           (''auto_restart'', PyBool True),
           (''heartbeat_interval'', PyInt 30)])"

text \<open>\<open>send_heartbeat\<close> (lines 206-212).\<close>

definition send_heartbeat :: "time \<Rightarrow> module_state \<Rightarrow> world \<Rightarrow> bool \<times> module_state \<times> world" where
  "send_heartbeat now g wd =
     (case watchdog_instance g of
        None \<Rightarrow> (False, g, wd)
      | Some a \<Rightarrow>
          if is_running (heap g a) then
            (case heartbeat now (heap g a) wd of
               (r, w', wd') \<Rightarrow> (r, g\<lparr>heap := (heap g)(a := w')\<rparr>, wd'))
          else (False, g, wd))"

text \<open>A step of thread \<open>tid\<close> of the object at address \<open>a\<close>.\<close>

definition object_step ::
    "env \<Rightarrow> nat \<Rightarrow> nat \<Rightarrow> time \<Rightarrow> time \<Rightarrow> module_state \<Rightarrow> world \<Rightarrow> module_state \<times> world" where
  "object_step e a tid now now_r g wd =
     (case monitor_loop_step e tid now now_r (heap g a) wd of
        (w', wd') \<Rightarrow> (g\<lparr>heap := (heap g)(a := w')\<rparr>, wd'))"

text \<open>Executions of the module: calls of the registry functions and steps of the
  objects' threads.\<close>

datatype call =
    StartWatchdog env "config option"
  | StopWatchdog
  | SendHeartbeat time
  | ObjectStep env nat nat time time

fun exec_call :: "call \<Rightarrow> module_state \<times> world \<Rightarrow> module_state \<times> world" where
  "exec_call (StartWatchdog e cfg) (g, wd) = snd (start_watchdog e cfg g wd)"
| "exec_call StopWatchdog (g, wd) = snd (stop_watchdog g wd)"
| "exec_call (SendHeartbeat now) (g, wd) = snd (send_heartbeat now g wd)"
| "exec_call (ObjectStep e a tid now now_r) (g, wd) = object_step e a tid now now_r g wd"

definition run_calls :: "call list \<Rightarrow> module_state \<times> world \<Rightarrow> module_state \<times> world" where
  "run_calls cs s = foldl (\<lambda>s c. exec_call c s) s cs"

text \<open>The three components of what a call returns: its result, the object (or module
  state) after it, and the world after it.\<close>

definition result_of :: "'r \<times> 's \<times> world \<Rightarrow> 'r" where
  "result_of x = fst x"

definition object_of :: "'r \<times> 's \<times> world \<Rightarrow> 's" where
  "object_of x = fst (snd x)"

definition world_of :: "'r \<times> 's \<times> world \<Rightarrow> world" where
  "world_of x = snd (snd x)"

subsection \<open>Sample inputs\<close>

text \<open>
  The configuration of the scenario in \<open>main\<close> (lines 219-224), a world with nothing logged
  and no restart file, and two environments with a healthy system: the file run as a
  script, and the module imported. The two library functions are stand-ins; every theorem
  below holds for all choices of them.
\<close>

definition scenario_config :: config where
  "scenario_config = \<lparr>cfg_enabled = Some True, cfg_heartbeat_interval = Some 5,
     cfg_max_failures = Some 2, cfg_auto_restart = Some True\<rparr>"

definition empty_world :: world where
  "empty_world = \<lparr>logger = [], restart_file = []\<rparr>"

definition script_env :: env where
  "script_env = \<lparr>names_bound = True, spawn_ok = True, fs = FsOk,
     isoformat = (\<lambda>t. ''<isoformat>''), json_dumps = (\<lambda>d. ''<json>'')\<rparr>"

definition import_env :: env where
  "import_env = script_env\<lparr>names_bound := False\<rparr>"

text \<open>An object of the scenario after \<open>start\<close>, with its one thread in state \<open>st\<close>; the
  module that holds it at address 0; the same object after one heartbeat at time 0 and one
  stale turn of the loop, and its like with \<open>auto_restart\<close> off.\<close>

definition scenario_started :: "tstate \<Rightarrow> watchdog" where
  "scenario_started st = (Watchdog_init (Some scenario_config))
     \<lparr>is_running := True, thread := Some 0, threads := [st]\<rparr>"

definition scenario_module :: "watchdog \<Rightarrow> module_state" where
  "scenario_module w = \<lparr>heap = (heap initial_module)(0 := w), next_addr = 1,
     watchdog_instance = Some 0\<rparr>"

definition stalled_once :: watchdog where
  "stalled_once = (Watchdog_init (Some scenario_config))
     \<lparr>failure_count := 1, last_heartbeat := Some 0, is_running := True, thread := Some 0,
       threads := [Looping]\<rparr>"

definition stalled_quiet :: watchdog where
  "stalled_quiet = (Watchdog_init (Some (scenario_config\<lparr>cfg_auto_restart := Some False\<rparr>)))
     \<lparr>failure_count := 1, last_heartbeat := Some 0, is_running := True, thread := Some 0,
       threads := [Looping]\<rparr>"

subsection \<open>Notions used in the statements\<close>

text \<open>The test of line 89 together with that of line 85: there is a last heartbeat and it
  is older than twice the interval.\<close>

definition is_stale :: "time \<Rightarrow> watchdog \<Rightarrow> bool" where
  "is_stale now w =
     (case last_heartbeat w of
        None \<Rightarrow> False
      | Some h \<Rightarrow> now - h > timedelta_seconds (heartbeat_interval w * 2))"

text \<open>The test of line 165: the global holds an object whose \<open>is_running\<close> is set.\<close>

definition monitor_running :: "module_state \<Rightarrow> bool" where
  "monitor_running g =
     (case watchdog_instance g of None \<Rightarrow> False | Some a \<Rightarrow> is_running (heap g a))"

text \<open>The global is bound exactly when an object has been allocated.\<close>

definition instance_bound :: "module_state \<Rightarrow> bool" where
  "instance_bound g =
     (case watchdog_instance g of None \<Rightarrow> next_addr g = 0 | Some a \<Rightarrow> a < next_addr g)"

text \<open>Steps of thread 0 of the object at address 0, each with its environment and its two
  clock readings.\<close>

definition steps_of :: "(env \<times> time \<times> time) list \<Rightarrow> call list" where
  "steps_of ticks = map (\<lambda>(e, now, now_r). ObjectStep e 0 0 now now_r) ticks"

text \<open>
  Heartbeats spaced at most \<open>i\<close> seconds apart, in an execution whose last heartbeat so far
  was at \<open>prev\<close>: every heartbeat comes no later than \<open>i\<close> seconds after the one before it,
  and every turn of the loop that follows a heartbeat reads its clock between that
  heartbeat and the next one. \<open>next_heartbeat\<close> is the time of the first heartbeat of an
  execution.
\<close>

fun next_heartbeat :: "event list \<Rightarrow> time option" where
  "next_heartbeat [] = None"
| "next_heartbeat (Heartbeat t # evs) = Some t"
| "next_heartbeat (ev # evs) = next_heartbeat evs"

fun heartbeats_spaced :: "int \<Rightarrow> time option \<Rightarrow> event list \<Rightarrow> bool" where
  "heartbeats_spaced i prev [] = True"
| "heartbeats_spaced i prev (Heartbeat t # evs) =
     ((case prev of None \<Rightarrow> True | Some h \<Rightarrow> h \<le> t \<and> t - h \<le> timedelta_seconds i)
      \<and> heartbeats_spaced i (Some t) evs)"
| "heartbeats_spaced i prev (Step e tid now now_r # evs) =
     ((case prev of
         None \<Rightarrow> True
       | Some h \<Rightarrow> h \<le> now \<and> (case next_heartbeat evs of None \<Rightarrow> False | Some t \<Rightarrow> now \<le> t))
      \<and> heartbeats_spaced i prev evs)"
| "heartbeats_spaced i prev (ev # evs) = heartbeats_spaced i prev evs"

section \<open>Properties\<close>

lemmas call_parts = result_of_def object_of_def world_of_def

lemma run_Nil [simp]: "run [] s = s"
  by (simp add: run_def)

lemma run_Cons [simp]: "run (ev # evs) s = run evs (exec ev s)"
  by (simp add: run_def)

lemma run_calls_Nil [simp]: "run_calls [] s = s"
  by (simp add: run_calls_def)

lemma run_calls_Cons [simp]: "run_calls (c # cs) s = run_calls cs (exec_call c s)"
  by (simp add: run_calls_def)

lemma run_calls_append [simp]: "run_calls (cs @ ds) s = run_calls ds (run_calls cs s)"
  by (simp add: run_calls_def)

lemma emit_restart_file [simp]: "restart_file (emit m wd) = restart_file wd"
  by (simp add: emit_def)

lemma emit_logger [simp]: "logger (emit m wd) = logger wd @ [m]"
  by (simp add: emit_def)

subsection \<open>Start\<close>

text \<open>
  Claim C4, as amended. \<open>start()\<close> returns false and leaves the object as it is when
  \<open>enabled\<close> is false; it returns true and leaves the object as it is (no thread is added)
  when the monitor is already running; otherwise it sets \<open>is_running\<close>, creates a thread
  for the loop and starts it: when the thread starts, \<open>start()\<close> returns true with
  \<open>is_running\<close> set and the new thread spawned; when \<open>Thread.start()\<close> raises, the handler
  of lines 47-50 resets \<open>is_running\<close> to false and \<open>start()\<close> returns false, the thread
  never having run.
\<close>

theorem start_cases:
  "(\<not> enabled w \<longrightarrow>
      result_of (start e w wd) = False \<and> object_of (start e w wd) = w)
   \<and> (enabled w \<and> is_running w \<longrightarrow>
      result_of (start e w wd) = True \<and> object_of (start e w wd) = w)
   \<and> (enabled w \<and> \<not> is_running w \<and> spawn_ok e \<longrightarrow>
      result_of (start e w wd) = True
      \<and> object_of (start e w wd) =
          w\<lparr>is_running := True, thread := Some (length (threads w)),
            threads := threads w @ [Spawned]\<rparr>)
   \<and> (enabled w \<and> \<not> is_running w \<and> \<not> spawn_ok e \<longrightarrow>
      result_of (start e w wd) = False
      \<and> object_of (start e w wd) =
          w\<lparr>is_running := False, thread := Some (length (threads w)),
            threads := threads w @ [Unstarted]\<rparr>)"
  by (simp add: start_def call_parts Let_def)

text \<open>The four cases, each at an object that meets its condition.\<close>

theorem start_cases_witness:
  "result_of (start script_env ((Watchdog_init None)\<lparr>enabled := False\<rparr>) empty_world) = False
   \<and> result_of (start script_env ((Watchdog_init None)\<lparr>is_running := True\<rparr>) empty_world) = True
   \<and> threads (object_of (start script_env ((Watchdog_init None)\<lparr>is_running := True\<rparr>) empty_world)) = []
   \<and> result_of (start script_env (Watchdog_init None) empty_world) = True
   \<and> threads (object_of (start script_env (Watchdog_init None) empty_world)) = [Spawned]
   \<and> is_running (object_of (start script_env (Watchdog_init None) empty_world))
   \<and> result_of (start (script_env\<lparr>spawn_ok := False\<rparr>) (Watchdog_init None) empty_world) = False
   \<and> threads (object_of (start (script_env\<lparr>spawn_ok := False\<rparr>) (Watchdog_init None) empty_world))
       = [Unstarted]"
  using start_cases [of "(Watchdog_init None)\<lparr>enabled := False\<rparr>" script_env empty_world]
        start_cases [of "(Watchdog_init None)\<lparr>is_running := True\<rparr>" script_env empty_world]
        start_cases [of "Watchdog_init None" script_env empty_world]
        start_cases [of "Watchdog_init None" "script_env\<lparr>spawn_ok := False\<rparr>" empty_world]
  by (simp add: Watchdog_init_def empty_config_def dict_get_def script_env_def)

text \<open>
  Claim C4 as stated fails: an enabled monitor that is not running, on a system that
  refuses the new thread. \<open>start()\<close> returns false, \<open>is_running\<close> is false afterwards and
  no loop runs.
\<close>

theorem start_thread_refused:
  "enabled (Watchdog_init None) \<and> \<not> is_running (Watchdog_init None)
   \<and> result_of (start (script_env\<lparr>spawn_ok := False\<rparr>) (Watchdog_init None) empty_world) = False
   \<and> \<not> is_running
        (object_of (start (script_env\<lparr>spawn_ok := False\<rparr>) (Watchdog_init None) empty_world))
   \<and> \<not> loop_alive
        (object_of (start (script_env\<lparr>spawn_ok := False\<rparr>) (Watchdog_init None) empty_world))"
  by (simp add: start_def call_parts Let_def Watchdog_init_def empty_config_def dict_get_def
        script_env_def loop_alive_def)

lemma start_result_running:
  "result_of (start e w wd) \<Longrightarrow> is_running (object_of (start e w wd))"
  by (simp add: start_def call_parts Let_def split: if_splits)

subsection \<open>Heartbeat and stop\<close>

text \<open>
  Claim C5. \<open>heartbeat()\<close> returns true and changes the object in exactly two fields:
  \<open>last_heartbeat\<close> becomes the current time and \<open>failure_count\<close> becomes 0, whatever it
  was. Two heartbeats in a row leave the object as the second one alone does.
\<close>

theorem heartbeat_resets_failure_count:
  "result_of (heartbeat now w wd) = True
   \<and> object_of (heartbeat now w wd) = w\<lparr>last_heartbeat := Some now, failure_count := 0\<rparr>
   \<and> last_heartbeat (object_of (heartbeat now w wd)) = Some now
   \<and> failure_count (object_of (heartbeat now w wd)) = 0
   \<and> object_of (heartbeat t2 (object_of (heartbeat t1 w wd)) wd') = object_of (heartbeat t2 w wd'')"
  by (simp add: heartbeat_def call_parts)

text \<open>
  Claim C7. \<open>stop()\<close> returns true, and \<open>get_status()\<close> on the object it leaves reports
  \<open>running\<close> false. A second \<open>stop()\<close> returns true as well and changes neither the
  object nor the world.
\<close>

theorem stop_then_status_not_running:
  "result_of (stop w wd) = True
   \<and> map_of (get_status e (object_of (stop w wd))) ''running'' = Some (PyBool False)
   \<and> stop (object_of (stop w wd)) wd' = (True, object_of (stop w wd), wd')"
  by (simp add: stop_def get_status_def call_parts)

subsection \<open>One turn of the loop\<close>

lemma sleep_object [simp]: "fst (snd (sleep_interval w wd)) = w"
  by (simp add: sleep_interval_def)

lemma body_object:
  "fst (snd (monitor_loop_body e now now_r w wd)) =
     (if is_stale now w then w\<lparr>failure_count := failure_count w + 1\<rparr> else w)"
  by (simp add: monitor_loop_body_def is_stale_def sleep_interval_def Let_def split: option.splits)

lemma body_fresh:
  "\<not> is_stale now w \<Longrightarrow> monitor_loop_body e now now_r w wd = sleep_interval w wd"
  by (simp add: monitor_loop_body_def is_stale_def Let_def split: option.splits)

lemma body_escalates:
  "is_stale now w \<Longrightarrow> max_failures w \<le> failure_count w + 1 \<Longrightarrow>
   monitor_loop_body e now now_r w wd =
     (Break, w\<lparr>failure_count := failure_count w + 1\<rparr>,
      (let wd2 = emit (Msg ERROR ''Maximum failures reached. Triggering restart...'')
                   (emit (MsgInt WARNING ''Heartbeat timeout. Failure count: ''
                            (failure_count w + 1)) wd)
       in if auto_restart w then
            trigger_restart e now_r (w\<lparr>failure_count := failure_count w + 1\<rparr>) wd2
          else wd2))"
  by (simp add: monitor_loop_body_def is_stale_def Let_def split: option.splits)

lemma body_restart_file:
  "\<not> auto_restart w \<Longrightarrow>
   restart_file (snd (snd (monitor_loop_body e now now_r w wd))) = restart_file wd"
  by (simp add: monitor_loop_body_def sleep_interval_def Let_def split: option.splits)

lemma turn_object:
  "\<exists>ts. fst (loop_turn e tid now now_r w wd) =
     (if is_running w \<and> is_stale now w
      then w\<lparr>failure_count := failure_count w + 1, threads := ts\<rparr>
      else w\<lparr>threads := ts\<rparr>)"
proof (cases "monitor_loop_body e now now_r w wd")
  case (fields c w' wd')
  have "w' = (if is_stale now w then w\<lparr>failure_count := failure_count w + 1\<rparr> else w)"
    using body_object [of e now now_r w wd] fields by simp
  then show ?thesis using fields
    by (cases c) (auto simp: loop_turn_def)
qed

lemma turn_changes:
  "\<exists>n ts. fst (loop_turn e tid now now_r w wd) = w\<lparr>failure_count := n, threads := ts\<rparr>"
proof -
  obtain ts where t: "fst (loop_turn e tid now now_r w wd) =
     (if is_running w \<and> is_stale now w
      then w\<lparr>failure_count := failure_count w + 1, threads := ts\<rparr>
      else w\<lparr>threads := ts\<rparr>)"
    using turn_object by blast
  have b: "w\<lparr>threads := ts\<rparr> = w\<lparr>failure_count := failure_count w, threads := ts\<rparr>"
    by simp
  show ?thesis
  proof (cases "is_running w \<and> is_stale now w")
    case True
    then show ?thesis using t by auto
  next
    case False
    then show ?thesis using t b by (simp only: if_False) blast
  qed
qed

lemma turn_restart_file:
  "\<not> auto_restart w \<Longrightarrow> restart_file (snd (loop_turn e tid now now_r w wd)) = restart_file wd"
  using body_restart_file [of w e now now_r wd]
  by (cases "monitor_loop_body e now now_r w wd" rule: prod_cases3)
     (auto simp: loop_turn_def split: loop_ctl.splits)

lemma turn_fresh_count:
  "\<not> is_stale now w \<Longrightarrow> failure_count (fst (loop_turn e tid now now_r w wd)) = failure_count w"
  by (auto simp: loop_turn_def body_fresh sleep_interval_def)

lemma step_changes:
  "\<exists>n ts. fst (monitor_loop_step e tid now now_r w wd) = w\<lparr>failure_count := n, threads := ts\<rparr>"
proof -
  have l0: "\<exists>n ts. w = w\<lparr>failure_count := n, threads := ts\<rparr>"
  proof -
    have "w = w\<lparr>failure_count := failure_count w, threads := threads w\<rparr>" by simp
    then show ?thesis by blast
  qed
  show ?thesis
  proof (cases "tid < length (threads w)")
    case False
    then show ?thesis using l0 by (simp add: monitor_loop_step_def)
  next
    case True
    then show ?thesis
      using l0 turn_changes [of e tid now now_r w wd]
        turn_changes [of e tid now now_r w "emit (Msg INFO ''Watchdog monitoring loop started'') wd"]
      by (cases "threads w ! tid") (simp_all add: monitor_loop_step_def)
  qed
qed

lemma step_frame:
  "auto_restart (fst (monitor_loop_step e tid now now_r w wd)) = auto_restart w"
  "heartbeat_interval (fst (monitor_loop_step e tid now now_r w wd)) = heartbeat_interval w"
  "last_heartbeat (fst (monitor_loop_step e tid now now_r w wd)) = last_heartbeat w"
  "is_running (fst (monitor_loop_step e tid now now_r w wd)) = is_running w"
proof -
  obtain n ts where
    "fst (monitor_loop_step e tid now now_r w wd) = w\<lparr>failure_count := n, threads := ts\<rparr>"
    using step_changes by blast
  then show
    "auto_restart (fst (monitor_loop_step e tid now now_r w wd)) = auto_restart w"
    "heartbeat_interval (fst (monitor_loop_step e tid now now_r w wd)) = heartbeat_interval w"
    "last_heartbeat (fst (monitor_loop_step e tid now now_r w wd)) = last_heartbeat w"
    "is_running (fst (monitor_loop_step e tid now now_r w wd)) = is_running w"
    by simp_all
qed

lemma step_restart_file:
  "\<not> auto_restart w \<Longrightarrow>
   restart_file (snd (monitor_loop_step e tid now now_r w wd)) = restart_file wd"
  by (simp add: monitor_loop_step_def turn_restart_file split: tstate.splits)

lemma step_fresh_count:
  "\<not> is_stale now w \<Longrightarrow>
   failure_count (fst (monitor_loop_step e tid now now_r w wd)) = failure_count w"
  by (simp add: monitor_loop_step_def turn_fresh_count split: tstate.splits)

subsection \<open>Escalation\<close>

text \<open>
  Claim C1 says that once the loop has escalated, \<open>is_running\<close> is false and \<open>get_status()\<close>
  reports \<open>running\<close> false. The code does otherwise: the turn of the loop that finds the
  heartbeat stale with \<open>failure_count + 1\<close> at \<open>max_failures\<close> ends the thread at the
  \<open>break\<close> of line 97 with \<open>failure_count \<ge> max_failures\<close>, and nothing on that path
  writes \<open>is_running\<close>: it is still true, and \<open>get_status()\<close> reports \<open>running\<close> true.
\<close>

theorem escalation_leaves_is_running:
  assumes "tid < length (threads w)" and "threads w ! tid = Looping" and "is_running w"
    and "is_stale now w" and "max_failures w \<le> failure_count w + 1"
  shows "threads (fst (monitor_loop_step e tid now now_r w wd)) ! tid = Finished
         \<and> max_failures (fst (monitor_loop_step e tid now now_r w wd))
             \<le> failure_count (fst (monitor_loop_step e tid now now_r w wd))
         \<and> is_running (fst (monitor_loop_step e tid now now_r w wd))
         \<and> map_of (get_status e' (fst (monitor_loop_step e tid now now_r w wd))) ''running''
             = Some (PyBool True)"
  using assms by (simp add: monitor_loop_step_def loop_turn_def body_escalates get_status_def)

text \<open>
  The scenario's monitor, started, with one heartbeat at time 0 and a first stale turn at
  11 s, is the object \<open>stalled_once\<close>; its turn at 16 s escalates. Afterwards no thread
  runs the loop, \<open>failure_count\<close> is 2, and \<open>running\<close> is reported true.
\<close>

theorem escalation_leaves_is_running_witness:
  "fst (run [Start script_env, Heartbeat 0, Step script_env 0 11000000 11000000]
         (Watchdog_init (Some scenario_config), empty_world)) = stalled_once
   \<and> is_stale 16000000 stalled_once
   \<and> max_failures stalled_once \<le> failure_count stalled_once + 1
   \<and> threads (fst (monitor_loop_step script_env 0 16000000 16000000 stalled_once empty_world))
       = [Finished]
   \<and> \<not> loop_alive (fst (monitor_loop_step script_env 0 16000000 16000000 stalled_once empty_world))
   \<and> failure_count (fst (monitor_loop_step script_env 0 16000000 16000000 stalled_once empty_world))
       = 2
   \<and> is_running (fst (monitor_loop_step script_env 0 16000000 16000000 stalled_once empty_world))
   \<and> map_of (get_status script_env
        (fst (monitor_loop_step script_env 0 16000000 16000000 stalled_once empty_world)))
        ''running'' = Some (PyBool True)"
  using escalation_leaves_is_running
    [of 0 stalled_once 16000000 script_env 16000000 empty_world script_env]
  by (simp add: stalled_once_def Watchdog_init_def scenario_config_def dict_get_def is_stale_def
        timedelta_seconds_def empty_world_def emit_def monitor_loop_step_def loop_turn_def
        monitor_loop_body_def start_def heartbeat_def sleep_interval_def script_env_def
        trigger_restart_def save_restart_log_def loop_alive_def get_status_def)

subsection \<open>Heartbeats that keep coming\<close>

lemma spaced_next:
  "heartbeats_spaced i (Some h) evs \<Longrightarrow> next_heartbeat evs = Some t \<Longrightarrow>
   h \<le> t \<and> t - h \<le> timedelta_seconds i"
proof (induction evs)
  case Nil
  then show ?case by simp
next
  case (Cons ev evs)
  then show ?case by (cases ev) auto
qed

lemma spaced_step_fresh:
  assumes "heartbeats_spaced (heartbeat_interval w) (last_heartbeat w)
             (Step e tid now now_r # evs)"
  shows "\<not> is_stale now w"
proof (cases "last_heartbeat w")
  case None
  then show ?thesis by (simp add: is_stale_def)
next
  case (Some h)
  with assms obtain t where le: "h \<le> now" "now \<le> t" and nx: "next_heartbeat evs = Some t"
    and sp: "heartbeats_spaced (heartbeat_interval w) (Some h) evs"
    by (auto split: option.splits)
  from spaced_next [OF sp nx] have "t - h \<le> timedelta_seconds (heartbeat_interval w)" by simp
  with le have "now - h \<le> heartbeat_interval w * 1000000" "0 \<le> heartbeat_interval w * 1000000"
    by (simp_all add: timedelta_seconds_def)
  then have "now - h \<le> heartbeat_interval w * 2 * 1000000" by simp
  then show ?thesis using Some by (simp add: is_stale_def timedelta_seconds_def)
qed

lemma exec_spaced:
  assumes "failure_count w = 0"
    and "heartbeats_spaced (heartbeat_interval w) (last_heartbeat w) (ev # evs)"
  shows "failure_count (fst (exec ev (w, wd))) = 0
         \<and> heartbeats_spaced (heartbeat_interval (fst (exec ev (w, wd))))
              (last_heartbeat (fst (exec ev (w, wd)))) evs"
proof (cases ev)
  case (Start e)
  then show ?thesis using assms by (simp add: start_def Let_def)
next
  case Stop
  then show ?thesis using assms by (simp add: stop_def)
next
  case (Heartbeat t)
  then show ?thesis using assms by (simp add: heartbeat_def)
next
  case (Step e tid now now_r)
  have "\<not> is_stale now w" using assms(2) unfolding Step by (rule spaced_step_fresh)
  then show ?thesis using assms Step by (simp add: step_fresh_count step_frame)
qed

text \<open>
  Claim C6. Take a monitor whose \<open>failure_count\<close> is 0 (as it is when constructed) and
  any execution of calls and loop turns in which the heartbeats are spaced at most
  \<open>heartbeat_interval\<close> apart. Then \<open>failure_count\<close> is 0 after every prefix of the
  execution: each turn of the loop finds the last heartbeat no older than the interval,
  and it counts a failure only when the heartbeat is older than twice the interval.
\<close>

theorem spaced_heartbeats_keep_count_zero:
  "failure_count w = 0 \<Longrightarrow>
   heartbeats_spaced (heartbeat_interval w) (last_heartbeat w) evs \<Longrightarrow>
   failure_count (fst (run (take n evs) (w, wd))) = 0"
proof (induction evs arbitrary: w wd n)
  case Nil
  then show ?case by simp
next
  case (Cons ev evs)
  show ?case
  proof (cases n)
    case 0
    then show ?thesis using Cons.prems by simp
  next
    case (Suc m)
    obtain w' wd' where ex: "exec ev (w, wd) = (w', wd')" by (cases "exec ev (w, wd)")
    from exec_spaced [OF Cons.prems, of wd] ex
    have "failure_count w' = 0" "heartbeats_spaced (heartbeat_interval w') (last_heartbeat w') evs"
      by simp_all
    then have "failure_count (fst (run (take m evs) (w', wd'))) = 0" by (rule Cons.IH)
    then show ?thesis using Suc ex by simp
  qed
qed

text \<open>The scenario's monitor with heartbeats at 3 s, 6 s, 9 s and 12 s and turns of the
  loop at 0 s, 5 s and 10 s.\<close>

theorem spaced_heartbeats_keep_count_zero_witness:
  "failure_count (Watchdog_init (Some scenario_config)) = 0
   \<and> heartbeats_spaced (heartbeat_interval (Watchdog_init (Some scenario_config)))
        (last_heartbeat (Watchdog_init (Some scenario_config)))
        [Start script_env, Step script_env 0 0 0, Heartbeat 3000000,
         Step script_env 0 5000000 5000000, Heartbeat 6000000, Heartbeat 9000000,
         Step script_env 0 10000000 10000000, Heartbeat 12000000]
   \<and> failure_count (fst (run (take 7
        [Start script_env, Step script_env 0 0 0, Heartbeat 3000000,
         Step script_env 0 5000000 5000000, Heartbeat 6000000, Heartbeat 9000000,
         Step script_env 0 10000000 10000000, Heartbeat 12000000])
        (Watchdog_init (Some scenario_config), empty_world))) = 0"
proof -
  have a: "failure_count (Watchdog_init (Some scenario_config)) = 0"
    by (simp add: Watchdog_init_def)
  have b: "heartbeats_spaced (heartbeat_interval (Watchdog_init (Some scenario_config)))
        (last_heartbeat (Watchdog_init (Some scenario_config)))
        [Start script_env, Step script_env 0 0 0, Heartbeat 3000000,
         Step script_env 0 5000000 5000000, Heartbeat 6000000, Heartbeat 9000000,
         Step script_env 0 10000000 10000000, Heartbeat 12000000]"
    by (simp add: Watchdog_init_def scenario_config_def dict_get_def timedelta_seconds_def)
  from spaced_heartbeats_keep_count_zero [OF a b, of 7 empty_world] a b show ?thesis
    by blast
qed

subsection \<open>Escalation without auto-restart\<close>

lemma exec_auto_restart: "auto_restart (fst (exec ev s)) = auto_restart (fst s)"
proof (cases s)
  case (Pair w wd)
  then show ?thesis
    by (cases ev) (simp_all add: start_def stop_def heartbeat_def Let_def step_frame)
qed

lemma exec_restart_file:
  "\<not> auto_restart (fst s) \<Longrightarrow> restart_file (snd (exec ev s)) = restart_file (snd s)"
proof (cases s)
  case (Pair w wd)
  assume "\<not> auto_restart (fst s)"
  then show ?thesis using Pair
    by (cases ev) (simp_all add: start_def stop_def heartbeat_def Let_def step_restart_file)
qed

lemma run_restart_file:
  "\<not> auto_restart (fst s) \<Longrightarrow> restart_file (snd (run evs s)) = restart_file (snd s)"
proof (induction evs arbitrary: s)
  case Nil
  then show ?case by simp
next
  case (Cons ev evs)
  have "\<not> auto_restart (fst (exec ev s))"
    using Cons.prems by (simp add: exec_auto_restart)
  then have "restart_file (snd (run evs (exec ev s))) = restart_file (snd (exec ev s))"
    by (rule Cons.IH)
  then show ?case using Cons.prems by (simp add: exec_restart_file)
qed

text \<open>
  Claim C10. With \<open>auto_restart\<close> false, the turn of the loop that brings \<open>failure_count\<close>
  to \<open>max_failures\<close> ends the thread all the same, and what it hands to the world is the
  warning and the error of lines 91 and 94 and nothing else: \<open>_trigger_restart\<close> is not
  called. Over a whole execution of the monitor, whatever its calls and turns, the
  restart file is never written.
\<close>

theorem no_restart_event_without_auto_restart:
  assumes "\<not> auto_restart w"
  shows "(tid < length (threads w) \<and> threads w ! tid = Looping \<and> is_running w
          \<and> is_stale now w \<and> max_failures w \<le> failure_count w + 1 \<longrightarrow>
            monitor_loop_step e tid now now_r w wd =
              (w\<lparr>failure_count := failure_count w + 1,
                 threads := (threads w)[tid := Finished]\<rparr>,
               emit (Msg ERROR ''Maximum failures reached. Triggering restart...'')
                 (emit (MsgInt WARNING ''Heartbeat timeout. Failure count: ''
                    (failure_count w + 1)) wd)))
         \<and> restart_file (snd (run evs (w, wd))) = restart_file wd"
proof -
  have "restart_file (snd (run evs (w, wd))) = restart_file wd"
    using run_restart_file [of "(w, wd)" evs] assms by simp
  moreover have "tid < length (threads w) \<and> threads w ! tid = Looping \<and> is_running w
          \<and> is_stale now w \<and> max_failures w \<le> failure_count w + 1 \<longrightarrow>
            monitor_loop_step e tid now now_r w wd =
              (w\<lparr>failure_count := failure_count w + 1,
                 threads := (threads w)[tid := Finished]\<rparr>,
               emit (Msg ERROR ''Maximum failures reached. Triggering restart...'')
                 (emit (MsgInt WARNING ''Heartbeat timeout. Failure count: ''
                    (failure_count w + 1)) wd))"
    using assms by (simp add: monitor_loop_step_def loop_turn_def body_escalates)
  ultimately show ?thesis by simp
qed

text \<open>The monitor \<open>stalled_quiet\<close> (one failure counted, \<open>auto_restart\<close> off) at its turn
  of 16 s, and over that turn and a later one.\<close>

theorem no_restart_event_without_auto_restart_witness:
  "\<not> auto_restart stalled_quiet
   \<and> is_stale 16000000 stalled_quiet
   \<and> max_failures stalled_quiet \<le> failure_count stalled_quiet + 1
   \<and> monitor_loop_step script_env 0 16000000 16000000 stalled_quiet empty_world =
       (stalled_quiet\<lparr>failure_count := 2, threads := [Finished]\<rparr>,
        \<lparr>logger = [MsgInt WARNING ''Heartbeat timeout. Failure count: '' 2,
                   Msg ERROR ''Maximum failures reached. Triggering restart...''],
         restart_file = []\<rparr>)
   \<and> restart_file
        (snd (run [Step script_env 0 16000000 16000000, Step script_env 0 21000000 21000000]
               (stalled_quiet, empty_world))) = []"
  using no_restart_event_without_auto_restart
    [of stalled_quiet 0 16000000 script_env 16000000 empty_world
        "[Step script_env 0 16000000 16000000, Step script_env 0 21000000 21000000]"]
  by (simp add: stalled_quiet_def Watchdog_init_def scenario_config_def dict_get_def is_stale_def
        timedelta_seconds_def empty_world_def emit_def monitor_loop_step_def loop_turn_def
        monitor_loop_body_def)

subsection \<open>The restart trigger\<close>

lemma trigger_restart_unbound:
  "\<not> names_bound e \<Longrightarrow>
   trigger_restart e now w wd =
     wd\<lparr>logger := logger wd @
       [Msg CRITICAL ''Watchdog triggering system restart'',
        MsgExn ERROR ''Error saving restart log: '' NameError,
        Msg INFO ''Restart triggered successfully'']\<rparr>"
  by (simp add: trigger_restart_def save_restart_log_def emit_def)

text \<open>With the names bound and a healthy file system the trigger appends one line to the
  restart file: the record of the four keys, then a newline.\<close>

lemma trigger_restart_written:
  "names_bound e \<Longrightarrow> fs e = FsOk \<Longrightarrow>
   trigger_restart e now w wd =
     wd\<lparr>logger := logger wd @
         [Msg CRITICAL ''Watchdog triggering system restart'',
          Msg INFO ''Restart triggered successfully''],
        restart_file := restart_file wd @
          json_dumps e
            [(''timestamp'', PyStr (isoformat e now)),
             (''reason'', PyStr ''watchdog_max_failures''),
             (''failure_count'', PyInt (failure_count w)),
             (''last_heartbeat'',
                (case last_heartbeat w of None \<Rightarrow> PyNone | Some h \<Rightarrow> PyStr (isoformat e h)))]
          @ [CHR 0x0A]\<rparr>"
  by (simp add: trigger_restart_def save_restart_log_def emit_def Let_def)

text \<open>
  Claim C3 says that every escalation appends one record to the restart log. The code
  does so only when the file is run as a script. In a process that imports the module,
  \<open>Path\<close> and \<open>json\<close> are unbound: \<open>_save_restart_log\<close> raises \<open>NameError\<close> at its first
  statement, the handler logs it, and \<open>_trigger_restart\<close> returns with the restart file
  as it was, however healthy the file system is.
\<close>

theorem restart_record_lost_when_imported:
  "\<not> names_bound e \<Longrightarrow>
   restart_file (trigger_restart e now w wd) = restart_file wd
   \<and> logger (trigger_restart e now w wd) = logger wd @
       [Msg CRITICAL ''Watchdog triggering system restart'',
        MsgExn ERROR ''Error saving restart log: '' NameError,
        Msg INFO ''Restart triggered successfully'']"
  by (simp add: trigger_restart_unbound)

text \<open>The escalation of the scenario's monitor in a process that imported the module, on
  a healthy file system.\<close>

theorem restart_record_lost_when_imported_witness:
  "\<not> names_bound import_env \<and> fs import_env = FsOk
   \<and> restart_file
        (trigger_restart import_env 16000000 (stalled_once\<lparr>failure_count := 2\<rparr>) empty_world) = []
   \<and> logger
        (trigger_restart import_env 16000000 (stalled_once\<lparr>failure_count := 2\<rparr>) empty_world) =
       [Msg CRITICAL ''Watchdog triggering system restart'',
        MsgExn ERROR ''Error saving restart log: '' NameError,
        Msg INFO ''Restart triggered successfully'']"
  using restart_record_lost_when_imported
    [of import_env 16000000 "stalled_once\<lparr>failure_count := 2\<rparr>" empty_world]
  by (simp add: import_env_def script_env_def empty_world_def)

subsection \<open>The registry\<close>

lemma start_watchdog_not_running:
  "\<not> monitor_running g \<Longrightarrow> start_watchdog e cfg g wd = start_new e cfg g wd"
  by (simp add: start_watchdog_def monitor_running_def split: option.splits)

lemma start_new_eq:
  "start_new e cfg g wd =
     (if result_of (start e (Watchdog_init cfg) wd) then Some (next_addr g) else None,
      g\<lparr>heap := (heap g)(next_addr g := object_of (start e (Watchdog_init cfg) wd)),
        next_addr := Suc (next_addr g), watchdog_instance := Some (next_addr g)\<rparr>,
      world_of (start e (Watchdog_init cfg) wd))"
  by (simp add: start_new_def Let_def call_parts split: prod.splits)

lemma start_watchdog_result_running:
  assumes "result_of (start_watchdog e cfg g wd) = Some a"
  shows "watchdog_instance (object_of (start_watchdog e cfg g wd)) = Some a
         \<and> is_running (heap (object_of (start_watchdog e cfg g wd)) a)"
proof (cases "monitor_running g")
  case True
  then show ?thesis using assms
    by (auto simp: start_watchdog_def monitor_running_def call_parts split: option.splits)
next
  case False
  have eq: "start_watchdog e cfg g wd = start_new e cfg g wd"
    using False by (rule start_watchdog_not_running)
  from assms have r: "result_of (start e (Watchdog_init cfg) wd)" and a: "a = next_addr g"
    by (auto simp: eq start_new_eq result_of_def split: if_splits)
  from start_result_running [OF r] show ?thesis
    by (simp add: eq start_new_eq a object_of_def)
qed

text \<open>
  What \<open>start_watchdog\<close> does, in terms of the flag it tests at line 165. While the global
  holds a monitor whose \<open>is_running\<close> is set, it returns that same object and changes
  nothing: no object is allocated, no thread is created. Otherwise it allocates a new
  object, binds it to the global and starts it; it returns the object when \<open>start()\<close>
  returns true (the thread of its loop then being spawned), and \<open>None\<close> when \<open>start()\<close>
  returns false, which is the case when the configuration disables the monitor and when
  the thread cannot be started.
\<close>

lemma start_watchdog_by_flag:
  "(watchdog_instance g = Some a \<and> is_running (heap g a) \<longrightarrow>
      start_watchdog e cfg g wd = (Some a, g, wd))
   \<and> (result_of (start_watchdog e cfg g wd) = Some a \<longrightarrow>
      start_watchdog e' cfg' (object_of (start_watchdog e cfg g wd)) wd' =
        (Some a, object_of (start_watchdog e cfg g wd), wd'))
   \<and> (\<not> monitor_running g \<longrightarrow>
      start_watchdog e cfg g wd =
        (if result_of (start e (Watchdog_init cfg) wd) then Some (next_addr g) else None,
         g\<lparr>heap := (heap g)(next_addr g := object_of (start e (Watchdog_init cfg) wd)),
           next_addr := Suc (next_addr g), watchdog_instance := Some (next_addr g)\<rparr>,
         world_of (start e (Watchdog_init cfg) wd)))
   \<and> (\<not> monitor_running g \<and> enabled (Watchdog_init cfg) \<and> spawn_ok e \<longrightarrow>
      result_of (start_watchdog e cfg g wd) = Some (next_addr g)
      \<and> heap (object_of (start_watchdog e cfg g wd)) (next_addr g) =
          (Watchdog_init cfg)\<lparr>is_running := True, thread := Some 0, threads := [Spawned]\<rparr>)
   \<and> (\<not> monitor_running g \<and> (\<not> enabled (Watchdog_init cfg) \<or> \<not> spawn_ok e) \<longrightarrow>
      result_of (start_watchdog e cfg g wd) = None
      \<and> \<not> loop_alive (heap (object_of (start_watchdog e cfg g wd)) (next_addr g)))"
proof -
  have 1: "watchdog_instance g = Some a \<and> is_running (heap g a) \<longrightarrow>
      start_watchdog e cfg g wd = (Some a, g, wd)"
    by (simp add: start_watchdog_def)
  have 2: "result_of (start_watchdog e cfg g wd) = Some a \<longrightarrow>
      start_watchdog e' cfg' (object_of (start_watchdog e cfg g wd)) wd' =
        (Some a, object_of (start_watchdog e cfg g wd), wd')"
    using start_watchdog_result_running [of e cfg g wd a]
    by (auto simp: start_watchdog_def)
  have 3: "\<not> monitor_running g \<longrightarrow>
      start_watchdog e cfg g wd =
        (if result_of (start e (Watchdog_init cfg) wd) then Some (next_addr g) else None,
         g\<lparr>heap := (heap g)(next_addr g := object_of (start e (Watchdog_init cfg) wd)),
           next_addr := Suc (next_addr g), watchdog_instance := Some (next_addr g)\<rparr>,
         world_of (start e (Watchdog_init cfg) wd))"
    by (simp add: start_watchdog_not_running start_new_eq)
  have init: "\<not> is_running (Watchdog_init cfg)" "threads (Watchdog_init cfg) = []"
    by (simp_all add: Watchdog_init_def Let_def)
  have 4: "\<not> monitor_running g \<and> enabled (Watchdog_init cfg) \<and> spawn_ok e \<longrightarrow>
      result_of (start_watchdog e cfg g wd) = Some (next_addr g)
      \<and> heap (object_of (start_watchdog e cfg g wd)) (next_addr g) =
          (Watchdog_init cfg)\<lparr>is_running := True, thread := Some 0, threads := [Spawned]\<rparr>"
    using init by (simp add: start_watchdog_not_running start_new_eq start_def call_parts Let_def)
  have 5: "\<not> monitor_running g \<and> (\<not> enabled (Watchdog_init cfg) \<or> \<not> spawn_ok e) \<longrightarrow>
      result_of (start_watchdog e cfg g wd) = None
      \<and> \<not> loop_alive (heap (object_of (start_watchdog e cfg g wd)) (next_addr g))"
    using init
    by (auto simp: start_watchdog_not_running start_new_eq start_def call_parts Let_def
          loop_alive_def)
  from 1 2 3 4 5 show ?thesis by blast
qed

text \<open>A monitor started from the initial module, a second call while it runs, and the
  two ways in which \<open>start()\<close> fails.\<close>

lemma start_watchdog_by_flag_examples:
  "\<not> monitor_running initial_module
   \<and> enabled (Watchdog_init (Some scenario_config)) \<and> spawn_ok script_env
   \<and> start_watchdog script_env (Some scenario_config) initial_module empty_world =
       (Some 0, scenario_module (scenario_started Spawned),
        emit (Msg INFO ''Watchdog started successfully'') empty_world)
   \<and> monitor_running (scenario_module (scenario_started Spawned))
   \<and> start_watchdog script_env None (scenario_module (scenario_started Spawned)) empty_world =
       (Some 0, scenario_module (scenario_started Spawned), empty_world)
   \<and> \<not> enabled (Watchdog_init (Some (scenario_config\<lparr>cfg_enabled := Some False\<rparr>)))
   \<and> result_of (start_watchdog script_env (Some (scenario_config\<lparr>cfg_enabled := Some False\<rparr>))
        initial_module empty_world) = None
   \<and> result_of (start_watchdog (script_env\<lparr>spawn_ok := False\<rparr>) (Some scenario_config)
        initial_module empty_world) = None"
  using start_watchdog_by_flag
          [of initial_module 0 script_env "Some scenario_config" empty_world script_env None empty_world]
        start_watchdog_by_flag
          [of "scenario_module (scenario_started Spawned)" 0 script_env None empty_world]
        start_watchdog_by_flag
          [of initial_module 0 script_env "Some (scenario_config\<lparr>cfg_enabled := Some False\<rparr>)" empty_world]
        start_watchdog_by_flag
          [of initial_module 0 "script_env\<lparr>spawn_ok := False\<rparr>" "Some scenario_config" empty_world]
  by (simp add: monitor_running_def initial_module_def scenario_module_def scenario_started_def
        Watchdog_init_def scenario_config_def dict_get_def script_env_def start_def call_parts
        Let_def emit_def empty_world_def)

text \<open>
  Claim C8 says that \<open>start_watchdog\<close> constructs and starts a new monitor when none is
  running. The code decides by the flag alone, and the flag outlives the loop: a monitor
  whose loop has escalated and ended still has \<open>is_running\<close> set. In such a state, where
  no thread runs the loop of the global's object, \<open>start_watchdog\<close> returns that dead
  object, allocates nothing and starts no loop.
\<close>

theorem start_watchdog_returns_dead_monitor:
  assumes "watchdog_instance g = Some a" and "is_running (heap g a)"
    and "\<not> loop_alive (heap g a)"
  shows "start_watchdog e cfg g wd = (Some a, g, wd)
         \<and> \<not> loop_alive (heap (object_of (start_watchdog e cfg g wd)) a)
         \<and> next_addr (object_of (start_watchdog e cfg g wd)) = next_addr g"
  using assms by (simp add: start_watchdog_def object_of_def)

text \<open>The module after the scenario's monitor has escalated (started, one heartbeat at
  time 0, turns of the loop at 11 s and 16 s), and a call of \<open>start_watchdog\<close> in it.\<close>

theorem start_watchdog_returns_dead_monitor_witness:
  "fst (run_calls
        [StartWatchdog script_env (Some scenario_config),
         SendHeartbeat 0,
         ObjectStep script_env 0 0 11000000 11000000,
         ObjectStep script_env 0 0 16000000 16000000]
        (initial_module, empty_world)) =
     scenario_module ((scenario_started Finished)\<lparr>failure_count := 2, last_heartbeat := Some 0\<rparr>)
   \<and> watchdog_instance (scenario_module
         ((scenario_started Finished)\<lparr>failure_count := 2, last_heartbeat := Some 0\<rparr>)) = Some 0
   \<and> is_running (heap (scenario_module
         ((scenario_started Finished)\<lparr>failure_count := 2, last_heartbeat := Some 0\<rparr>)) 0)
   \<and> threads (heap (scenario_module
         ((scenario_started Finished)\<lparr>failure_count := 2, last_heartbeat := Some 0\<rparr>)) 0)
       = [Finished]
   \<and> \<not> loop_alive (heap (scenario_module
         ((scenario_started Finished)\<lparr>failure_count := 2, last_heartbeat := Some 0\<rparr>)) 0)
   \<and> start_watchdog script_env (Some scenario_config)
        (scenario_module
           ((scenario_started Finished)\<lparr>failure_count := 2, last_heartbeat := Some 0\<rparr>))
        empty_world =
       (Some 0,
        scenario_module
          ((scenario_started Finished)\<lparr>failure_count := 2, last_heartbeat := Some 0\<rparr>),
        empty_world)"
proof -
  have reach: "fst (run_calls
        [StartWatchdog script_env (Some scenario_config),
         SendHeartbeat 0,
         ObjectStep script_env 0 0 11000000 11000000,
         ObjectStep script_env 0 0 16000000 16000000]
        (initial_module, empty_world)) =
     scenario_module ((scenario_started Finished)\<lparr>failure_count := 2, last_heartbeat := Some 0\<rparr>)"
    by (simp add: start_watchdog_def start_new_def initial_module_def start_def Let_def
          Watchdog_init_def scenario_config_def dict_get_def script_env_def object_step_def
          monitor_loop_step_def loop_turn_def monitor_loop_body_def sleep_interval_def
          send_heartbeat_def heartbeat_def timedelta_seconds_def trigger_restart_def
          save_restart_log_def emit_def empty_world_def scenario_module_def scenario_started_def)
  have a: "watchdog_instance (scenario_module
         ((scenario_started Finished)\<lparr>failure_count := 2, last_heartbeat := Some 0\<rparr>)) = Some 0"
    by (simp add: scenario_module_def)
  have b: "is_running (heap (scenario_module
         ((scenario_started Finished)\<lparr>failure_count := 2, last_heartbeat := Some 0\<rparr>)) 0)"
    by (simp add: scenario_module_def scenario_started_def)
  have t: "threads (heap (scenario_module
         ((scenario_started Finished)\<lparr>failure_count := 2, last_heartbeat := Some 0\<rparr>)) 0)
       = [Finished]"
    by (simp add: scenario_module_def scenario_started_def)
  have c: "\<not> loop_alive (heap (scenario_module
         ((scenario_started Finished)\<lparr>failure_count := 2, last_heartbeat := Some 0\<rparr>)) 0)"
    using t by (simp add: loop_alive_def)
  from start_watchdog_returns_dead_monitor [OF a b c, of script_env "Some scenario_config" empty_world]
    reach a b t c
  show ?thesis by simp
qed

lemma start_new_bound: "instance_bound (fst (snd (start_new e cfg g wd)))"
  by (simp add: start_new_def instance_bound_def Let_def split: prod.splits)

lemma exec_call_bound: "instance_bound (fst s) \<Longrightarrow> instance_bound (fst (exec_call c s))"
proof (cases s)
  case (Pair g wd)
  assume b: "instance_bound (fst s)"
  show ?thesis
  proof (cases c)
    case (StartWatchdog e cfg)
    then show ?thesis using b Pair start_new_bound [of e cfg g wd]
      by (simp add: start_watchdog_def split: option.splits)
  next
    case StopWatchdog
    then show ?thesis using b Pair
      by (auto simp: stop_watchdog_def instance_bound_def split: option.splits prod.splits)
  next
    case (SendHeartbeat t)
    then show ?thesis using b Pair
      by (auto simp: send_heartbeat_def instance_bound_def split: option.splits prod.splits)
  next
    case (ObjectStep e a tid t tr)
    then show ?thesis using b Pair
      by (auto simp: object_step_def instance_bound_def split: option.splits prod.splits)
  qed
qed

lemma run_calls_bound: "instance_bound (fst s) \<Longrightarrow> instance_bound (fst (run_calls cs s))"
  by (induction cs arbitrary: s) (simp_all add: exec_call_bound)

text \<open>
  Claim C9. \<open>get_watchdog_status()\<close> has no statement that raises and returns a
  dictionary for every module state. With the global unbound it is the fixed snapshot;
  with the global bound it holds the current fields of that object. It returns nothing
  but the dictionary, so no state is changed. In every state the module reaches from
  its initial one, the global is unbound exactly when no monitor has been constructed.
\<close>

theorem status_never_fails:
  "get_watchdog_status e (g\<lparr>watchdog_instance := None\<rparr>) =
     [(''enabled'', PyBool False), (''running'', PyBool False), (''failure_count'', PyInt 0),
      (''last_heartbeat'', PyNone), (''max_failures'', PyInt 3), (''auto_restart'', PyBool True),
      (''heartbeat_interval'', PyInt 30)]
   \<and> get_watchdog_status e (g\<lparr>watchdog_instance := Some a\<rparr>) =
     [(''enabled'', PyBool (enabled (heap g a))),
      (''running'', PyBool (is_running (heap g a))),
      (''failure_count'', PyInt (failure_count (heap g a))),
      (''last_heartbeat'',
         (case last_heartbeat (heap g a) of None \<Rightarrow> PyNone | Some h \<Rightarrow> PyStr (isoformat e h))),
      (''max_failures'', PyInt (max_failures (heap g a))),
      (''auto_restart'', PyBool (auto_restart (heap g a))),
      (''heartbeat_interval'', PyInt (heartbeat_interval (heap g a)))]
   \<and> (watchdog_instance (fst (run_calls cs (initial_module, wd))) = None) =
       (next_addr (fst (run_calls cs (initial_module, wd))) = 0)"
proof -
  have "instance_bound initial_module"
    by (simp add: instance_bound_def initial_module_def)
  then have "instance_bound (fst (run_calls cs (initial_module, wd)))"
    using run_calls_bound [of "(initial_module, wd)" cs] by simp
  then have "(watchdog_instance (fst (run_calls cs (initial_module, wd))) = None) =
       (next_addr (fst (run_calls cs (initial_module, wd))) = 0)"
    by (auto simp: instance_bound_def split: option.splits)
  then show ?thesis
    by (simp add: get_watchdog_status_def get_status_def)
qed

subsection \<open>The scenario of the specification\<close>

lemma scenario_start:
  "spawn_ok e \<Longrightarrow>
   start_watchdog e (Some scenario_config) initial_module wd =
     (Some 0, scenario_module (scenario_started Spawned),
      emit (Msg INFO ''Watchdog started successfully'') wd)"
  by (simp add: start_watchdog_def start_new_def initial_module_def start_def Let_def
        scenario_module_def scenario_started_def Watchdog_init_def scenario_config_def
        dict_get_def)

lemma silent_step:
  assumes "st = Spawned \<or> st = Looping"
  shows "\<exists>wd'. object_step e 0 0 now now_r (scenario_module (scenario_started st)) wd =
           (scenario_module (scenario_started Looping), wd')
         \<and> restart_file wd' = restart_file wd"
  using assms
  by (auto simp: object_step_def scenario_module_def scenario_started_def monitor_loop_step_def
        loop_turn_def monitor_loop_body_def sleep_interval_def Watchdog_init_def
        scenario_config_def dict_get_def)

lemma silent_steps:
  assumes "st = Spawned \<or> st = Looping"
  shows "\<exists>wd' st'. run_calls (steps_of ticks) (scenario_module (scenario_started st), wd) =
           (scenario_module (scenario_started st'), wd')
         \<and> restart_file wd' = restart_file wd
         \<and> st' = (if ticks = [] then st else Looping)"
  using assms
proof (induction ticks arbitrary: st wd)
  case Nil
  then show ?case by (simp add: steps_of_def)
next
  case (Cons tk ticks)
  obtain e now now_r where tk: "tk = (e, now, now_r)" by (cases tk)
  obtain wd1 where s1: "object_step e 0 0 now now_r (scenario_module (scenario_started st)) wd =
           (scenario_module (scenario_started Looping), wd1)"
    and f1: "restart_file wd1 = restart_file wd"
    using silent_step [OF Cons.prems] by blast
  obtain wd' st' where
    s2: "run_calls (steps_of ticks) (scenario_module (scenario_started Looping), wd1) =
           (scenario_module (scenario_started st'), wd')"
    and f2: "restart_file wd' = restart_file wd1"
    and st': "st' = (if ticks = [] then Looping else Looping)"
    using Cons.IH [of Looping wd1] by auto
  show ?case using s1 s2 f1 f2 st' tk by (simp add: steps_of_def)
qed

lemma scenario_silent:
  assumes "spawn_ok e"
  shows "\<exists>wd' st. run_calls (StartWatchdog e (Some scenario_config) # steps_of ticks)
             (initial_module, wd) = (scenario_module (scenario_started st), wd')
         \<and> restart_file wd' = restart_file wd
         \<and> st = (if ticks = [] then Spawned else Looping)"
  using silent_steps [of Spawned ticks "emit (Msg INFO ''Watchdog started successfully'') wd"]
  by (simp add: scenario_start [OF assms])

lemma stale_steps:
  assumes "st = Spawned \<or> st = Looping"
    and "10000000 < t1 - h" and "10000000 < t2 - h"
  shows "\<exists>wd'. run_calls [SendHeartbeat h, ObjectStep e1 0 0 t1 r1, ObjectStep e2 0 0 t2 r2]
             (scenario_module (scenario_started st), wd) =
           (scenario_module
              ((scenario_started Finished)\<lparr>failure_count := 2, last_heartbeat := Some h\<rparr>), wd')
         \<and> (if names_bound e2 \<and> fs e2 = FsOk
            then restart_file wd' = restart_file wd @
              json_dumps e2
                [(''timestamp'', PyStr (isoformat e2 r2)),
                 (''reason'', PyStr ''watchdog_max_failures''),
                 (''failure_count'', PyInt 2),
                 (''last_heartbeat'', PyStr (isoformat e2 h))]
              @ [CHR 0x0A]
            else True)"
proof -
  have hb: "send_heartbeat h (scenario_module (scenario_started st)) wd =
      (True, scenario_module ((scenario_started st)\<lparr>last_heartbeat := Some h\<rparr>),
       emit (Msg DEBUG ''Heartbeat sent'') wd)"
    by (simp add: send_heartbeat_def heartbeat_def scenario_module_def scenario_started_def
          Watchdog_init_def)
  have s1: "\<exists>wd1. object_step e1 0 0 t1 r1
        (scenario_module ((scenario_started st)\<lparr>last_heartbeat := Some h\<rparr>))
        (emit (Msg DEBUG ''Heartbeat sent'') wd) =
      (scenario_module
         ((scenario_started Looping)\<lparr>failure_count := 1, last_heartbeat := Some h\<rparr>), wd1)
      \<and> restart_file wd1 = restart_file wd"
    using assms(1,2)
    by (auto simp: object_step_def scenario_module_def scenario_started_def
          monitor_loop_step_def loop_turn_def monitor_loop_body_def sleep_interval_def
          Watchdog_init_def scenario_config_def dict_get_def timedelta_seconds_def Let_def)
  then obtain wd1 where s1': "object_step e1 0 0 t1 r1
        (scenario_module ((scenario_started st)\<lparr>last_heartbeat := Some h\<rparr>))
        (emit (Msg DEBUG ''Heartbeat sent'') wd) =
      (scenario_module
         ((scenario_started Looping)\<lparr>failure_count := 1, last_heartbeat := Some h\<rparr>), wd1)"
    and f1: "restart_file wd1 = restart_file wd" by blast
  have s2: "\<exists>wd2. object_step e2 0 0 t2 r2
        (scenario_module
           ((scenario_started Looping)\<lparr>failure_count := 1, last_heartbeat := Some h\<rparr>)) wd1 =
      (scenario_module
         ((scenario_started Finished)\<lparr>failure_count := 2, last_heartbeat := Some h\<rparr>), wd2)
      \<and> (if names_bound e2 \<and> fs e2 = FsOk
         then restart_file wd2 = restart_file wd1 @
              json_dumps e2
                [(''timestamp'', PyStr (isoformat e2 r2)),
                 (''reason'', PyStr ''watchdog_max_failures''),
                 (''failure_count'', PyInt 2),
                 (''last_heartbeat'', PyStr (isoformat e2 h))]
              @ [CHR 0x0A]
         else True)"
    using assms(3)
    by (auto simp: object_step_def scenario_module_def scenario_started_def
          monitor_loop_step_def loop_turn_def monitor_loop_body_def sleep_interval_def
          Watchdog_init_def scenario_config_def dict_get_def timedelta_seconds_def
          trigger_restart_def save_restart_log_def emit_def Let_def)
  then show ?thesis using hb s1' f1 by auto
qed

text \<open>
  Claim C2, as amended. For the configuration \<open>{enabled: true, heartbeat_interval: 5,
  max_failures: 2, auto_restart: true}\<close>, started from the initial module: as long as no
  heartbeat is sent, every turn of the loop skips the staleness check (line 85), so after
  any number of turns \<open>get_watchdog_status()\<close> reports \<open>failure_count\<close> 0 and \<open>running\<close>
  true, no record has been written to the restart file and the loop is still alive. When
  one heartbeat is then recorded and two turns of the loop follow it, each more than 10 s
  after the heartbeat, \<open>failure_count\<close> reaches 2, the loop's thread has finished and no
  loop is alive, and \<open>get_watchdog_status()\<close> reports \<open>failure_count\<close> 2, whatever the
  environment; and when the file is run as a script on a healthy file system, exactly one
  newline-terminated record has been appended to the restart file.
\<close>

theorem scenario_without_and_with_heartbeat:
  assumes "spawn_ok e"
  shows "get_watchdog_status e0
           (fst (run_calls (StartWatchdog e (Some scenario_config) # steps_of ticks)
                   (initial_module, wd))) =
           [(''enabled'', PyBool True), (''running'', PyBool True), (''failure_count'', PyInt 0),
            (''last_heartbeat'', PyNone), (''max_failures'', PyInt 2),
            (''auto_restart'', PyBool True), (''heartbeat_interval'', PyInt 5)]
         \<and> restart_file (snd (run_calls (StartWatchdog e (Some scenario_config) # steps_of ticks)
                   (initial_module, wd))) = restart_file wd
         \<and> loop_alive (heap (fst (run_calls (StartWatchdog e (Some scenario_config) # steps_of ticks)
                   (initial_module, wd))) 0)
         \<and> (10000000 < t1 - h \<and> 10000000 < t2 - h \<longrightarrow>
              map_of (get_watchdog_status e0 (fst (run_calls (StartWatchdog e (Some scenario_config) # steps_of ticks
                        @ [SendHeartbeat h, ObjectStep e1 0 0 t1 r1, ObjectStep e2 0 0 t2 r2])
                      (initial_module, wd)))) ''failure_count'' = Some (PyInt 2)
              \<and> threads (heap (fst (run_calls (StartWatchdog e (Some scenario_config) # steps_of ticks
                        @ [SendHeartbeat h, ObjectStep e1 0 0 t1 r1, ObjectStep e2 0 0 t2 r2])
                      (initial_module, wd))) 0) = [Finished]
              \<and> \<not> loop_alive (heap (fst (run_calls (StartWatchdog e (Some scenario_config) # steps_of ticks
                        @ [SendHeartbeat h, ObjectStep e1 0 0 t1 r1, ObjectStep e2 0 0 t2 r2])
                      (initial_module, wd))) 0)
              \<and> (names_bound e2 \<and> fs e2 = FsOk \<longrightarrow>
                   restart_file (snd (run_calls (StartWatchdog e (Some scenario_config) # steps_of ticks
                        @ [SendHeartbeat h, ObjectStep e1 0 0 t1 r1, ObjectStep e2 0 0 t2 r2])
                      (initial_module, wd))) =
                     restart_file wd @
                     json_dumps e2
                    [(''timestamp'', PyStr (isoformat e2 r2)),
                     (''reason'', PyStr ''watchdog_max_failures''),
                     (''failure_count'', PyInt 2),
                     (''last_heartbeat'', PyStr (isoformat e2 h))]
                  @ [CHR 0x0A]))"
proof -
  obtain wd1 st where run1: "run_calls (StartWatchdog e (Some scenario_config) # steps_of ticks)
             (initial_module, wd) = (scenario_module (scenario_started st), wd1)"
    and file1: "restart_file wd1 = restart_file wd"
    and st: "st = (if ticks = [] then Spawned else Looping)"
    using scenario_silent [OF assms] by blast
  have st': "st = Spawned \<or> st = Looping" using st by simp
  have a: "get_watchdog_status e0 (scenario_module (scenario_started st)) =
           [(''enabled'', PyBool True), (''running'', PyBool True), (''failure_count'', PyInt 0),
            (''last_heartbeat'', PyNone), (''max_failures'', PyInt 2),
            (''auto_restart'', PyBool True), (''heartbeat_interval'', PyInt 5)]"
    by (simp add: get_watchdog_status_def get_status_def scenario_module_def scenario_started_def
          Watchdog_init_def scenario_config_def dict_get_def)
  have b: "loop_alive (heap (scenario_module (scenario_started st)) 0)"
    using st' by (auto simp: loop_alive_def scenario_module_def scenario_started_def)
  have c: "(10000000 < t1 - h \<and> 10000000 < t2 - h \<longrightarrow>
              map_of (get_watchdog_status e0 (fst (run_calls [SendHeartbeat h, ObjectStep e1 0 0 t1 r1, ObjectStep e2 0 0 t2 r2]
                      (scenario_module (scenario_started st), wd1)))) ''failure_count'' = Some (PyInt 2)
              \<and> threads (heap (fst (run_calls [SendHeartbeat h, ObjectStep e1 0 0 t1 r1, ObjectStep e2 0 0 t2 r2]
                      (scenario_module (scenario_started st), wd1))) 0) = [Finished]
              \<and> \<not> loop_alive (heap (fst (run_calls [SendHeartbeat h, ObjectStep e1 0 0 t1 r1, ObjectStep e2 0 0 t2 r2]
                      (scenario_module (scenario_started st), wd1))) 0)
              \<and> (names_bound e2 \<and> fs e2 = FsOk \<longrightarrow>
                   restart_file (snd (run_calls [SendHeartbeat h, ObjectStep e1 0 0 t1 r1, ObjectStep e2 0 0 t2 r2]
                      (scenario_module (scenario_started st), wd1))) =
                     restart_file wd @
                     json_dumps e2
                    [(''timestamp'', PyStr (isoformat e2 r2)),
                     (''reason'', PyStr ''watchdog_max_failures''),
                     (''failure_count'', PyInt 2),
                     (''last_heartbeat'', PyStr (isoformat e2 h))]
                  @ [CHR 0x0A]))"
  proof (intro impI)
    assume late: "10000000 < t1 - h \<and> 10000000 < t2 - h"
    then obtain wd2 where
      r: "run_calls [SendHeartbeat h, ObjectStep e1 0 0 t1 r1, ObjectStep e2 0 0 t2 r2]
             (scenario_module (scenario_started st), wd1) =
           (scenario_module
              ((scenario_started Finished)\<lparr>failure_count := 2, last_heartbeat := Some h\<rparr>), wd2)"
      and f: "if names_bound e2 \<and> fs e2 = FsOk
              then restart_file wd2 = restart_file wd1 @
                     json_dumps e2
                    [(''timestamp'', PyStr (isoformat e2 r2)),
                     (''reason'', PyStr ''watchdog_max_failures''),
                     (''failure_count'', PyInt 2),
                     (''last_heartbeat'', PyStr (isoformat e2 h))]
                  @ [CHR 0x0A]
              else True"
      using stale_steps [OF st', of t1 h t2 e1 r1 e2 r2 wd1] by blast
    have state: "map_of (get_watchdog_status e0
          (scenario_module
             ((scenario_started Finished)\<lparr>failure_count := 2, last_heartbeat := Some h\<rparr>)))
          ''failure_count'' = Some (PyInt 2)
        \<and> threads (heap (scenario_module
             ((scenario_started Finished)\<lparr>failure_count := 2, last_heartbeat := Some h\<rparr>)) 0)
           = [Finished]
        \<and> \<not> loop_alive (heap (scenario_module
             ((scenario_started Finished)\<lparr>failure_count := 2, last_heartbeat := Some h\<rparr>)) 0)"
      by (simp add: get_watchdog_status_def get_status_def scenario_module_def
            scenario_started_def loop_alive_def)
    have written: "names_bound e2 \<and> fs e2 = FsOk \<longrightarrow>
                restart_file wd2 = restart_file wd @
                     json_dumps e2
                    [(''timestamp'', PyStr (isoformat e2 r2)),
                     (''reason'', PyStr ''watchdog_max_failures''),
                     (''failure_count'', PyInt 2),
                     (''last_heartbeat'', PyStr (isoformat e2 h))]
                  @ [CHR 0x0A]"
      using f file1 by simp
    show "map_of (get_watchdog_status e0 (fst (run_calls [SendHeartbeat h, ObjectStep e1 0 0 t1 r1, ObjectStep e2 0 0 t2 r2]
                      (scenario_module (scenario_started st), wd1)))) ''failure_count'' = Some (PyInt 2)
              \<and> threads (heap (fst (run_calls [SendHeartbeat h, ObjectStep e1 0 0 t1 r1, ObjectStep e2 0 0 t2 r2]
                      (scenario_module (scenario_started st), wd1))) 0) = [Finished]
              \<and> \<not> loop_alive (heap (fst (run_calls [SendHeartbeat h, ObjectStep e1 0 0 t1 r1, ObjectStep e2 0 0 t2 r2]
                      (scenario_module (scenario_started st), wd1))) 0)
              \<and> (names_bound e2 \<and> fs e2 = FsOk \<longrightarrow>
                   restart_file (snd (run_calls [SendHeartbeat h, ObjectStep e1 0 0 t1 r1, ObjectStep e2 0 0 t2 r2]
                      (scenario_module (scenario_started st), wd1))) =
                     restart_file wd @
                     json_dumps e2
                    [(''timestamp'', PyStr (isoformat e2 r2)),
                     (''reason'', PyStr ''watchdog_max_failures''),
                     (''failure_count'', PyInt 2),
                     (''last_heartbeat'', PyStr (isoformat e2 h))]
                  @ [CHR 0x0A])"
      unfolding r using state written by simp
  qed
  have split: "\<And>cs. run_calls (StartWatchdog e (Some scenario_config) # steps_of ticks @ cs)
        (initial_module, wd) = run_calls cs (scenario_module (scenario_started st), wd1)"
  proof -
    fix cs
    have "run_calls ((StartWatchdog e (Some scenario_config) # steps_of ticks) @ cs)
        (initial_module, wd) = run_calls cs (scenario_module (scenario_started st), wd1)"
      unfolding run_calls_append run1 ..
    then show "run_calls (StartWatchdog e (Some scenario_config) # steps_of ticks @ cs)
        (initial_module, wd) = run_calls cs (scenario_module (scenario_started st), wd1)"
      by simp
  qed
  show ?thesis
    unfolding split run1 using a b c file1 by simp
qed

text \<open>The scenario run as a script on a healthy system: two turns of the loop without a
  heartbeat, then a heartbeat at 6 s and turns at 20 s and 25 s.\<close>

theorem scenario_without_and_with_heartbeat_witness:
  "spawn_ok script_env \<and> names_bound script_env \<and> fs script_env = FsOk
   \<and> get_watchdog_status script_env
        (fst (run_calls (StartWatchdog script_env (Some scenario_config)
                # steps_of [(script_env, 0, 0), (script_env, 5000000, 5000000)])
              (initial_module, empty_world))) =
       [(''enabled'', PyBool True), (''running'', PyBool True), (''failure_count'', PyInt 0),
        (''last_heartbeat'', PyNone), (''max_failures'', PyInt 2),
        (''auto_restart'', PyBool True), (''heartbeat_interval'', PyInt 5)]
   \<and> map_of (get_watchdog_status script_env
        (fst (run_calls (StartWatchdog script_env (Some scenario_config)
                # steps_of [(script_env, 0, 0), (script_env, 5000000, 5000000)]
                @ [SendHeartbeat 6000000, ObjectStep script_env 0 0 20000000 20000000,
                   ObjectStep script_env 0 0 25000000 25000000])
              (initial_module, empty_world)))) ''failure_count'' = Some (PyInt 2)
   \<and> threads (heap (fst (run_calls (StartWatchdog script_env (Some scenario_config)
                # steps_of [(script_env, 0, 0), (script_env, 5000000, 5000000)]
                @ [SendHeartbeat 6000000, ObjectStep script_env 0 0 20000000 20000000,
                   ObjectStep script_env 0 0 25000000 25000000])
              (initial_module, empty_world))) 0) = [Finished]
   \<and> restart_file (snd (run_calls (StartWatchdog script_env (Some scenario_config)
                # steps_of [(script_env, 0, 0), (script_env, 5000000, 5000000)]
                @ [SendHeartbeat 6000000, ObjectStep script_env 0 0 20000000 20000000,
                   ObjectStep script_env 0 0 25000000 25000000])
              (initial_module, empty_world))) = ''<json>'' @ [CHR 0x0A]"
proof -
  have h: "spawn_ok script_env" "names_bound script_env" "fs script_env = FsOk"
    "json_dumps script_env = (\<lambda>d. ''<json>'')"
    by (simp_all add: script_env_def)
  have t: "(10000000::int) < 20000000 - 6000000 \<and> (10000000::int) < 25000000 - 6000000"
    by simp
  have e: "restart_file empty_world = []" by (simp add: empty_world_def)
  from scenario_without_and_with_heartbeat
         [OF h(1), where ?e0.0 = script_env
            and ticks = "[(script_env, 0, 0), (script_env, 5000000, 5000000)]"
            and wd = empty_world and ?t1.0 = 20000000 and h = 6000000 and ?t2.0 = 25000000
            and ?e1.0 = script_env and ?e2.0 = script_env
            and ?r1.0 = 20000000 and ?r2.0 = 25000000]
       t h e
  show ?thesis by simp
qed

text \<open>
  Claim C2 as stated fails: the scenario's monitor, started and never sent a heartbeat,
  after turns of its loop at 0 s, 5 s, 10 s, 15 s, 20 s and 25 s. \<open>failure_count\<close> is
  reported 0, not 2; the loop's thread is still looping; the restart file is empty.
\<close>

theorem silent_scenario_never_escalates:
  "map_of (get_watchdog_status script_env
      (fst (run_calls
        [StartWatchdog script_env (Some scenario_config),
         ObjectStep script_env 0 0 0 0,
         ObjectStep script_env 0 0 5000000 5000000,
         ObjectStep script_env 0 0 10000000 10000000,
         ObjectStep script_env 0 0 15000000 15000000,
         ObjectStep script_env 0 0 20000000 20000000,
         ObjectStep script_env 0 0 25000000 25000000]
        (initial_module, empty_world)))) ''failure_count'' = Some (PyInt 0)
   \<and> threads (heap (fst (run_calls
        [StartWatchdog script_env (Some scenario_config),
         ObjectStep script_env 0 0 0 0,
         ObjectStep script_env 0 0 5000000 5000000,
         ObjectStep script_env 0 0 10000000 10000000,
         ObjectStep script_env 0 0 15000000 15000000,
         ObjectStep script_env 0 0 20000000 20000000,
         ObjectStep script_env 0 0 25000000 25000000]
        (initial_module, empty_world))) 0) = [Looping]
   \<and> restart_file (snd (run_calls
        [StartWatchdog script_env (Some scenario_config),
         ObjectStep script_env 0 0 0 0,
         ObjectStep script_env 0 0 5000000 5000000,
         ObjectStep script_env 0 0 10000000 10000000,
         ObjectStep script_env 0 0 15000000 15000000,
         ObjectStep script_env 0 0 20000000 20000000,
         ObjectStep script_env 0 0 25000000 25000000]
        (initial_module, empty_world))) = []"
  by (simp add: start_watchdog_def start_new_def initial_module_def start_def Let_def
        Watchdog_init_def scenario_config_def dict_get_def script_env_def object_step_def
        monitor_loop_step_def loop_turn_def monitor_loop_body_def sleep_interval_def
        get_watchdog_status_def get_status_def empty_world_def emit_def)

end
